theory Spec2Isabelle
  imports Main "HOL-Library.Word"
begin

unbundle bit_operations_syntax

section \<open>Percentages and small helpers\<close>

text \<open>
  All percentages and small counters of the driver are \<open>uint8_t\<close>, the tick counters are
  \<open>uint16_t\<close>.
\<close>

type_synonym uint8_t = "8 word"
type_synonym uint16_t = "16 word"

text \<open>
  Modelled from the spec: \<open>OTV0P2BASE::fnabsdiff\<close> is declared outside the headers embedded here;
  the specification reads its use in \<open>closeEnoughToTarget\<close> as the absolute difference
  \<open>|target - current|\<close>. On unsigned operands the larger is taken first, so nothing wraps.
\<close>

definition fnabsdiff :: "uint8_t \<Rightarrow> uint8_t \<Rightarrow> uint8_t" where
  "fnabsdiff a b = (if b < a then a - b else b - a)"

text \<open>
  Modelled from the spec: \<open>OTV0P2BASE::fnmin\<close> is declared outside the headers embedded here;
  \<open>setTargetPC\<close> uses it to coerce its argument into range, that is, as the smaller of the two.
\<close>

definition fnmin :: "uint8_t \<Rightarrow> uint8_t \<Rightarrow> uint8_t" where
  "fnmin a b = (if a < b then a else b)"

text \<open>
  Modelled from the spec: \<open>OTV0P2BASE::fnconstrain\<close> is declared outside the headers
  embedded here; the specification reads its use in \<open>recomputeIntermediatePosition\<close> as clamping the
  first argument into the closed range given by the other two.
\<close>

definition fnconstrain :: "uint8_t \<Rightarrow> uint8_t \<Rightarrow> uint8_t \<Rightarrow> uint8_t" where
  "fnconstrain x l h = (if x < l then l else if h < x then h else x)"

section \<open>CurrentSenseValveMotorDirect: close enough to target\<close>

definition absTolerancePC :: uint8_t where
  "absTolerancePC = 11"

text \<open>
  \<open>closeEnoughToTarget\<close> of the source. The threshold \<open>DEFAULT_VALVE_PC_SAFER_OPEN\<close> is
  declared in a parameters header that is not embedded here, so it is the first argument.
\<close>

definition closeEnoughToTarget :: "uint8_t \<Rightarrow> uint8_t \<Rightarrow> uint8_t \<Rightarrow> bool" where
  "closeEnoughToTarget saferOpen tgt cur =
     ((tgt = cur) \<or>
      (fnabsdiff tgt cur \<le> absTolerancePC) \<or>
      ((tgt < saferOpen) \<and> (cur \<le> tgt)) \<or>
      ((tgt \<ge> saferOpen) \<and> (cur \<ge> tgt)))"

section \<open>CurrentSenseValveMotorDirectBinaryOnly: the driver object\<close>

text \<open>Basic states of the driver, in the order of the enumeration (values 0 to 7).\<close>

datatype driverState =
    init
  | initWaiting
  | valvePinWithdrawing
  | valvePinWithdrawn
  | valveCalibrating
  | valveNormal
  | valveDecalcinating
  | valveError

fun driverStateValue :: "driverState \<Rightarrow> uint8_t" where
  "driverStateValue init = 0"
| "driverStateValue initWaiting = 1"
| "driverStateValue valvePinWithdrawing = 2"
| "driverStateValue valvePinWithdrawn = 3"
| "driverStateValue valveCalibrating = 4"
| "driverStateValue valveNormal = 5"
| "driverStateValue valveDecalcinating = 6"
| "driverStateValue valveError = 7"

text \<open>
  The anonymous union \<open>perState\<close> is kept as its storage: eight bytes, byte 0 in the low
  bits of a 64-bit value. Its members are views of these bytes at the offsets the struct
  declarations give them (the two \<open>uint16_t\<close> first, then the three \<open>uint8_t\<close>); the largest
  member uses bytes 0 to 6 and the last byte is padding. Two-byte members are read low byte
  first.
\<close>

type_synonym perStateBytes = "64 word"

definition initWaiting_ticksWaited :: "perStateBytes \<Rightarrow> uint8_t" where
  "initWaiting_ticksWaited ps = ucast ps"

definition valveCalibrating_ticksFromOpenToClosed :: "perStateBytes \<Rightarrow> uint16_t" where
  "valveCalibrating_ticksFromOpenToClosed ps = ucast ps"

definition valveCalibrating_ticksFromClosedToOpen :: "perStateBytes \<Rightarrow> uint16_t" where
  "valveCalibrating_ticksFromClosedToOpen ps = ucast (drop_bit 16 ps)"

definition valveCalibrating_calibState :: "perStateBytes \<Rightarrow> uint8_t" where
  "valveCalibrating_calibState ps = ucast (drop_bit 32 ps)"

definition valveCalibrating_wallclock2sTicks :: "perStateBytes \<Rightarrow> uint8_t" where
  "valveCalibrating_wallclock2sTicks ps = ucast (drop_bit 40 ps)"

definition valveCalibrating_endStopHitCount :: "perStateBytes \<Rightarrow> uint8_t" where
  "valveCalibrating_endStopHitCount ps = ucast (drop_bit 48 ps)"

definition valvePinWithdrawing_wallclock2sTicks :: "perStateBytes \<Rightarrow> uint8_t" where
  "valvePinWithdrawing_wallclock2sTicks ps = ucast ps"

definition valvePinWithdrawing_endStopHitCount :: "perStateBytes \<Rightarrow> uint8_t" where
  "valvePinWithdrawing_endStopHitCount ps = ucast (drop_bit 8 ps)"

definition valvePinWithdrawn_valveFitted :: "perStateBytes \<Rightarrow> bool" where
  "valvePinWithdrawn_valveFitted ps = ((ucast ps :: uint8_t) \<noteq> 0)"

definition valveNormal_endStopHitCount :: "perStateBytes \<Rightarrow> uint8_t" where
  "valveNormal_endStopHitCount ps = ucast ps"

text \<open>Writing \<open>true\<close> to \<open>perState.valvePinWithdrawn.valveFitted\<close> stores 1 in byte 0.\<close>

definition set_valvePinWithdrawn_valveFitted :: "perStateBytes \<Rightarrow> perStateBytes" where
  "set_valvePinWithdrawn_valveFitted ps = (ps AND NOT 255) OR 1"

subsection \<open>Calibration parameters\<close>

record CalibrationParameters =
  ticksFromOpenToClosed :: uint16_t
  ticksFromClosedToOpen :: uint16_t
  approxPrecisionPC :: uint8_t
  tfotcSmall :: uint8_t
  tfctoSmall :: uint8_t

definition max_usuable_precision :: uint8_t where
  "max_usuable_precision = 15"

definition bad_precision :: uint8_t where
  "bad_precision = 100"

definition cannotRunProportional :: "CalibrationParameters \<Rightarrow> bool" where
  "cannotRunProportional c = (approxPrecisionPC c > max_usuable_precision)"

definition getTicksFromOpenToClosed :: "CalibrationParameters \<Rightarrow> uint16_t" where
  "getTicksFromOpenToClosed c = ticksFromOpenToClosed c"

text \<open>The member initialisers of \<open>CalibrationParameters\<close>.\<close>

definition defaultCalibrationParameters :: CalibrationParameters where
  "defaultCalibrationParameters =
     \<lparr> ticksFromOpenToClosed = 0, ticksFromClosedToOpen = 0,
       approxPrecisionPC = bad_precision, tfotcSmall = 0, tfctoSmall = 0 \<rparr>"

subsection \<open>The object and its member functions\<close>

text \<open>
  The fields of \<open>CurrentSenseValveMotorDirectBinaryOnly\<close> that change at run time, followed
  by those that the final class \<open>CurrentSenseValveMotorDirect\<close> adds.
\<close>

record driver =
  state :: driverState
  perState :: perStateBytes
  endStopDetected :: bool
  currentPC :: uint8_t
  targetPC :: uint8_t
  cp :: CalibrationParameters
  needsRecalibrating :: bool
  ticksFromOpen :: uint16_t
  ticksReverse :: uint16_t

definition clearPerState :: "driver \<Rightarrow> driver" where
  "clearPerState s = s\<lparr>perState := 0\<rparr>"

definition changeState :: "driverState \<Rightarrow> driver \<Rightarrow> driver" where
  "changeState newState s = clearPerState (s\<lparr>state := newState\<rparr>)"

definition isAtEndstop :: "uint8_t \<Rightarrow> bool" where
  "isAtEndstop valvePC = ((0 = valvePC) \<or> (100 = valvePC))"

definition resetCurrentPC :: "bool \<Rightarrow> driver \<Rightarrow> driver" where
  "resetCurrentPC hitEndstopOpen s = s\<lparr>currentPC := (if hitEndstopOpen then 100 else 0)\<rparr>"

text \<open>\<open>hitEndstop\<close> of the binary-only base class.\<close>

definition hitEndstop_BinaryOnly :: "bool \<Rightarrow> driver \<Rightarrow> driver" where
  "hitEndstop_BinaryOnly hitEndstopOpen s = resetCurrentPC hitEndstopOpen s"

definition getCurrentPC :: "driver \<Rightarrow> uint8_t" where
  "getCurrentPC s = currentPC s"

definition getTargetPC :: "driver \<Rightarrow> uint8_t" where
  "getTargetPC s = targetPC s"

definition setTargetPC :: "uint8_t \<Rightarrow> driver \<Rightarrow> driver" where
  "setTargetPC newPC s = s\<lparr>targetPC := fnmin newPC 100\<rparr>"

definition isWaitingForValveToBeFitted :: "driver \<Rightarrow> bool" where
  "isWaitingForValveToBeFitted s = (state s = valvePinWithdrawn)"

definition isInNormalRunState :: "driver \<Rightarrow> bool" where
  "isInNormalRunState s = (state s = valveNormal)"

definition isInErrorState :: "driver \<Rightarrow> bool" where
  "isInErrorState s = (driverStateValue (state s) \<ge> driverStateValue valveError)"

text \<open>
  \<open>isControlledValveReallyOpen\<close>. \<open>getMinPercentOpen\<close> is virtual: the base class answers
  \<open>DEFAULT_VALVE_PC_MODERATELY_OPEN\<close>, a constant declared outside the headers embedded here, and
  the final class overrides it outside the header; its answer is the first argument.
\<close>

definition isControlledValveReallyOpen :: "uint8_t \<Rightarrow> driver \<Rightarrow> bool" where
  "isControlledValveReallyOpen minPercentOpen s =
     (isInNormalRunState s \<and> (currentPC s \<ge> minPercentOpen))"

definition signalHittingEndStop :: "bool \<Rightarrow> driver \<Rightarrow> driver" where
  "signalHittingEndStop opening s = s\<lparr>endStopDetected := True\<rparr>"

definition signalValveFitted :: "driver \<Rightarrow> driver" where
  "signalValveFitted s =
     (if isWaitingForValveToBeFitted s
      then s\<lparr>perState := set_valvePinWithdrawn_valveFitted (perState s)\<rparr>
      else s)"

subsection \<open>CurrentSenseValveMotorDirect: the proportional driver\<close>

definition reportTrackingError :: "driver \<Rightarrow> driver" where
  "reportTrackingError s = s\<lparr>needsRecalibrating := True\<rparr>"

text \<open>
  \<open>CalibrationParameters::computePosition\<close> is only declared in the header. It takes the two
  tick counters by reference and returns a percentage, so here it is a function from the
  calibration parameters and both counters to the percentage and the counters as it leaves them.
\<close>

type_synonym computePositionFn =
  "CalibrationParameters \<Rightarrow> uint16_t \<Rightarrow> uint16_t \<Rightarrow> uint8_t \<times> uint16_t \<times> uint16_t"

definition recomputeIntermediatePosition :: "computePositionFn \<Rightarrow> driver \<Rightarrow> driver" where
  "recomputeIntermediatePosition computePosition s =
     (if needsRecalibrating s then s
      else case computePosition (cp s) (ticksFromOpen s) (ticksReverse s) of
             (pos, tfo, tr) \<Rightarrow>
               s\<lparr>currentPC := fnconstrain pos 1 99, ticksFromOpen := tfo, ticksReverse := tr\<rparr>)"

text \<open>\<open>hitEndstop\<close> as overridden by the final class.\<close>

definition hitEndstop :: "bool \<Rightarrow> driver \<Rightarrow> driver" where
  "hitEndstop hitEndstopOpen s =
     (resetCurrentPC hitEndstopOpen s)
       \<lparr>ticksReverse := 0,
        ticksFromOpen := (if hitEndstopOpen then 0 else getTicksFromOpenToClosed (cp s))\<rparr>"

definition inNonProportionalMode :: "driver \<Rightarrow> bool" where
  "inNonProportionalMode s = (needsRecalibrating s \<or> cannotRunProportional (cp s))"

text \<open>
  A freshly constructed driver: the member initialisers, then the constructor body
  \<open>changeState(init)\<close>. The union and the two tick counters have no initialiser, so what they
  hold before the constructor runs is given; \<open>DEFAULT_VALVE_PC_SAFER_OPEN\<close> is the first
  argument as before.
\<close>

definition newDriver :: "uint8_t \<Rightarrow> perStateBytes \<Rightarrow> uint16_t \<Rightarrow> uint16_t \<Rightarrow> driver" where
  "newDriver saferOpen ps0 tfo0 tr0 =
     changeState init
       \<lparr> state = init, perState = ps0, endStopDetected = False,
         currentPC = 100, targetPC = saferOpen - 1,
         cp = defaultCalibrationParameters, needsRecalibrating = True,
         ticksFromOpen = tfo0, ticksReverse = tr0 \<rparr>"

text \<open>
  The member functions defined in the header that change the object, as one step function.
  \<open>resetCurrentPC\<close> is the body of \<open>hitEndstop\<close> and is reached only through it.
\<close>

datatype driverCall =
    CallChangeState driverState
  | CallSetTargetPC uint8_t
  | CallSignalHittingEndStop bool
  | CallSignalValveFitted
  | CallReportTrackingError
  | CallRecomputeIntermediatePosition
  | CallHitEndstop bool

fun call :: "computePositionFn \<Rightarrow> driverCall \<Rightarrow> driver \<Rightarrow> driver" where
  "call f (CallChangeState newState) s = changeState newState s"
| "call f (CallSetTargetPC newPC) s = setTargetPC newPC s"
| "call f (CallSignalHittingEndStop opening) s = signalHittingEndStop opening s"
| "call f CallSignalValveFitted s = signalValveFitted s"
| "call f CallReportTrackingError s = reportTrackingError s"
| "call f CallRecomputeIntermediatePosition s = recomputeIntermediatePosition f s"
| "call f (CallHitEndstop hitEndstopOpen) s = hitEndstop hitEndstopOpen s"

text \<open>
  A driver in normal running state with calibration in place and an estimated position of 50%,
  used to exercise the position functions.
\<close>

definition midDriver :: driver where
  "midDriver =
     (changeState valveNormal (newDriver 50 0 0 0))\<lparr>needsRecalibrating := False, currentPC := 50\<rparr>"

section \<open>ValveControlState: the temperature-to-target tick\<close>

text \<open>
  Modelled from the spec: the input snapshot \<open>ModelledRadValveInputState\<close> is declared in a
  header that is not part of the sources; the fields are those the specification's data model
  lists: target and maximum target in whole degrees C, the reference temperature in sixteenths
  of a degree, the five behaviour flags and the minimum percentage that counts as really open.
\<close>

record ModelledRadValveInputState =
  targetTempC :: int
  maxTargetTempC :: int
  refTempC16 :: int
  widenDeadband :: bool
  fastResponseRequired :: bool
  hasEcoBias :: bool
  glacial :: bool
  inBakeMode :: bool
  minPCReallyOpen :: nat

text \<open>
  Modelled from the spec: the controller state \<open>ModelledRadValveState\<close> is declared in a
  header that is not part of the sources; the fields are those of the specification's data
  model: the cumulative movement count, the filtering flag, the rolling history of raw
  temperatures, and the two anti-hunt lockouts as countdown timers. A lockout is armed while
  its countdown is not zero.
\<close>

record ValveControlState =
  cumulativeMovementPC :: nat
  isFiltering :: bool
  prevRawTempC16 :: "int list"
  turnupCountdown :: nat
  turndownCountdown :: nat

definition dontTurnup :: "ValveControlState \<Rightarrow> bool" where
  "dontTurnup s = (0 < turnupCountdown s)"

definition dontTurndown :: "ValveControlState \<Rightarrow> bool" where
  "dontTurndown s = (0 < turndownCountdown s)"

text \<open>
  Modelled from the spec: the body of \<open>ModelledRadValveState::tick\<close> is not part of the
  sources (its unit tests are). The specification fixes these parts of a tick, and the model
  has exactly them:
  \<^item> BAKE unconditionally forces 100% and at the same time arms \<open>dontTurndown\<close>;
  \<^item> the percentage is never left outside 0 to 100;
  \<^item> a backing valve, if supplied, is commanded to the same percentage;
  \<^item> \<open>cumulativeMovementPC += |newPC - oldPC|\<close>.
  The steps the specification describes without figures (temperature history and filtering,
  draught detection, the gross-error and proportional response, the refusal of moves by the
  anti-hunt lockouts and their cooling down) are the argument \<open>control\<close>: from the state, the
  inputs and the old percentage it gives the percentage proposed outside BAKE and the state
  with history, filter flag and timers brought up to date. \<open>recloseDelay\<close> is the length of
  the cooldown for which BAKE arms \<open>dontTurndown\<close>.
\<close>

type_synonym controlFn =
  "ValveControlState \<Rightarrow> ModelledRadValveInputState \<Rightarrow> nat \<Rightarrow> nat \<times> ValveControlState"

definition movedPC :: "nat \<Rightarrow> nat \<Rightarrow> nat" where
  "movedPC oldPC newPC = (if oldPC < newPC then newPC - oldPC else oldPC - newPC)"

definition tick ::
  "controlFn \<Rightarrow> nat \<Rightarrow> ValveControlState \<Rightarrow> ModelledRadValveInputState \<Rightarrow> nat option \<Rightarrow> nat
     \<Rightarrow> nat \<times> nat option \<times> ValveControlState" where
  "tick control recloseDelay s inputs backingValve valvePC =
     (case control s inputs valvePC of
        (proposedPC, s1) \<Rightarrow>
          let newPC = (if inBakeMode inputs then 100 else min 100 proposedPC);
              s2 = (if inBakeMode inputs then s1\<lparr>turndownCountdown := recloseDelay\<rparr> else s1)
          in (newPC,
              map_option (\<lambda>_. newPC) backingValve,
              s2\<lparr>cumulativeMovementPC := cumulativeMovementPC s + movedPC valvePC newPC\<rparr>))"

text \<open>
  Inputs of the unit test \<open>UpDownDelay\<close>: a room at 18 C with a given target, and a
  newly made controller state. \<open>halfRange\<close> is a sample response that
  moves half of the range per tick towards the end the target calls for and touches no timer.
\<close>

definition roomAt18 :: "int \<Rightarrow> bool \<Rightarrow> ModelledRadValveInputState" where
  "roomAt18 target bake =
     \<lparr> targetTempC = target, maxTargetTempC = target, refTempC16 = 18 * 16,
       widenDeadband = False, fastResponseRequired = False, hasEcoBias = False,
       glacial = False, inBakeMode = bake, minPCReallyOpen = 15 \<rparr>"

definition newValveControlState :: ValveControlState where
  "newValveControlState =
     \<lparr> cumulativeMovementPC = 0, isFiltering = False, prevRawTempC16 = [],
       turnupCountdown = 0, turndownCountdown = 0 \<rparr>"

definition halfRange :: controlFn where
  "halfRange s inputs valvePC =
     (if refTempC16 inputs < 16 * targetTempC inputs then (valvePC + 50, s)
      else (valvePC - 50, s))"

section \<open>Properties\<close>

lemma uint_fnabsdiff: "uint (fnabsdiff a b) = \<bar>uint a - uint b\<bar>"
  by (simp add: fnabsdiff_def word_less_def uint_sub_if' word_le_def)

text \<open>
  C1. For all percentages, \<open>closeEnoughToTarget\<close> answers true exactly when the target equals
  the current value, or they differ by at most the absolute tolerance 11, or the target is
  strictly below the safer-open threshold and the current value is at or below the target, or
  the target is at or above the threshold and the current value is at or above the target.
  The right-hand side is read on the integers; it holds for every 8-bit value, in particular
  on the range 0 to 100.
\<close>

theorem closeEnoughToTarget_iff:
  "closeEnoughToTarget saferOpen tgt cur =
     (uint tgt = uint cur \<or>
      \<bar>uint tgt - uint cur\<bar> \<le> 11 \<or>
      (uint tgt < uint saferOpen \<and> uint cur \<le> uint tgt) \<or>
      (uint saferOpen \<le> uint tgt \<and> uint tgt \<le> uint cur))"
proof -
  have "(fnabsdiff tgt cur \<le> absTolerancePC) = (\<bar>uint tgt - uint cur\<bar> \<le> 11)"
    by (simp add: word_le_def uint_fnabsdiff absTolerancePC_def)
  then show ?thesis
    by (simp add: closeEnoughToTarget_def word_le_def word_less_def word_uint_eq_iff)
qed

subsection \<open>Range helpers\<close>

lemma unat_fnmin: "unat (fnmin a b) = min (unat a) (unat b)"
  by (simp add: fnmin_def word_less_nat_alt min_def)

lemma unat_fnconstrain:
  "unat (fnconstrain x l h) =
     (if unat x < unat l then unat l else if unat h < unat x then unat h else unat x)"
  by (simp add: fnconstrain_def word_less_nat_alt)

lemma fnconstrain_1_99: "unat (fnconstrain x 1 99) = max 1 (min 99 (unat x))"
  by (simp add: unat_fnconstrain max_def min_def)

lemma fnconstrain_not_endstop: "\<not> isAtEndstop (fnconstrain x 1 99)"
proof -
  have "unat (fnconstrain x 1 99) \<noteq> 0" "unat (fnconstrain x 1 99) \<noteq> 100"
    by (simp_all add: fnconstrain_1_99 max_def min_def)
  then show ?thesis
    by (auto simp add: isAtEndstop_def)
qed

subsection \<open>Dead reckoning and end stops\<close>

lemma recompute_currentPC:
  "\<not> needsRecalibrating s \<Longrightarrow>
   currentPC (recomputeIntermediatePosition f s) =
     fnconstrain (fst (f (cp s) (ticksFromOpen s) (ticksReverse s))) 1 99"
  by (simp add: recomputeIntermediatePosition_def split: prod.splits)

lemma recompute_keeps:
  "needsRecalibrating s \<Longrightarrow> recomputeIntermediatePosition f s = s"
  by (simp add: recomputeIntermediatePosition_def)

lemma call_sets_endstop:
  "currentPC (call f c s) \<noteq> currentPC s \<Longrightarrow> isAtEndstop (currentPC (call f c s)) \<Longrightarrow>
   \<exists>b. c = CallHitEndstop b"
proof (cases c)
  case CallRecomputeIntermediatePosition
  assume ne: "currentPC (call f c s) \<noteq> currentPC s"
    and es: "isAtEndstop (currentPC (call f c s))"
  show ?thesis
  proof (cases "needsRecalibrating s")
    case True
    with ne CallRecomputeIntermediatePosition show ?thesis
      by (simp add: recompute_keeps)
  next
    case False
    with es CallRecomputeIntermediatePosition show ?thesis
      by (simp add: recompute_currentPC fnconstrain_not_endstop)
  qed
qed (auto simp add: changeState_def clearPerState_def setTargetPC_def signalHittingEndStop_def
       signalValveFitted_def reportTrackingError_def split: if_splits)

text \<open>
  C6. While calibration is in place (\<open>needsRecalibrating\<close> is false),
  \<open>recomputeIntermediatePosition\<close> sets \<open>currentPC\<close> to the result of \<open>computePosition\<close>
  clamped into 1 to 99, so never to an end-stop value. \<open>hitEndstop\<close> sets it to exactly 100
  or exactly 0. Of the member functions of the header, only \<open>hitEndstop\<close> can change
  \<open>currentPC\<close> to 0 or 100; dead reckoning alone never does.
\<close>

theorem recomputeIntermediatePosition_clamped:
  "(\<not> needsRecalibrating s \<longrightarrow>
      currentPC (recomputeIntermediatePosition f s) =
        fnconstrain (fst (f (cp s) (ticksFromOpen s) (ticksReverse s))) 1 99 \<and>
      unat (currentPC (recomputeIntermediatePosition f s)) =
        max 1 (min 99 (unat (fst (f (cp s) (ticksFromOpen s) (ticksReverse s))))) \<and>
      \<not> isAtEndstop (currentPC (recomputeIntermediatePosition f s))) \<and>
   currentPC (hitEndstop hitEndstopOpen s) = (if hitEndstopOpen then 100 else 0) \<and>
   (currentPC (call f c s) \<noteq> currentPC s \<and> isAtEndstop (currentPC (call f c s)) \<longrightarrow>
      (\<exists>b. c = CallHitEndstop b))"
proof (intro conjI impI)
  assume "\<not> needsRecalibrating s"
  then show "currentPC (recomputeIntermediatePosition f s) =
        fnconstrain (fst (f (cp s) (ticksFromOpen s) (ticksReverse s))) 1 99"
    by (rule recompute_currentPC)
next
  assume "\<not> needsRecalibrating s"
  then show "unat (currentPC (recomputeIntermediatePosition f s)) =
        max 1 (min 99 (unat (fst (f (cp s) (ticksFromOpen s) (ticksReverse s)))))"
    by (simp add: recompute_currentPC fnconstrain_1_99)
next
  assume "\<not> needsRecalibrating s"
  then show "\<not> isAtEndstop (currentPC (recomputeIntermediatePosition f s))"
    by (simp add: recompute_currentPC fnconstrain_not_endstop)
next
  show "currentPC (hitEndstop hitEndstopOpen s) = (if hitEndstopOpen then 100 else 0)"
    by (simp add: hitEndstop_def resetCurrentPC_def)
next
  assume "currentPC (call f c s) \<noteq> currentPC s \<and> isAtEndstop (currentPC (call f c s))"
  then show "\<exists>b. c = CallHitEndstop b"
    using call_sets_endstop by blast
qed

text \<open>
  At the driver \<open>midDriver\<close> (calibrated, at 50%): dead reckoning that answers 0 gives 1, dead
  reckoning that answers 100 gives 99, and a closed end-stop hit moves \<open>currentPC\<close> to 0.
\<close>

theorem recomputeIntermediatePosition_clamped_witness:
  "\<not> needsRecalibrating midDriver \<and>
   currentPC (recomputeIntermediatePosition (\<lambda>c tfo tr. (0, tfo, tr)) midDriver) = 1 \<and>
   currentPC (recomputeIntermediatePosition (\<lambda>c tfo tr. (100, tfo, tr)) midDriver) = 99 \<and>
   currentPC (call (\<lambda>c tfo tr. (0, tfo, tr)) (CallHitEndstop False) midDriver)
     \<noteq> currentPC midDriver \<and>
   isAtEndstop (currentPC (call (\<lambda>c tfo tr. (0, tfo, tr)) (CallHitEndstop False) midDriver))"
  using recomputeIntermediatePosition_clamped
          [of midDriver "\<lambda>c tfo tr. (0, tfo, tr)" False "CallHitEndstop False"]
        recomputeIntermediatePosition_clamped
          [of midDriver "\<lambda>c tfo tr. (100, tfo, tr)" False "CallHitEndstop False"]
  by (simp add: midDriver_def newDriver_def changeState_def clearPerState_def fnconstrain_def
        hitEndstop_def resetCurrentPC_def isAtEndstop_def)

subsection \<open>Proportional-mode fallback\<close>

text \<open>
  C7. \<open>inNonProportionalMode\<close> holds exactly when \<open>needsRecalibrating\<close> is set or
  \<open>cannotRunProportional\<close> holds; \<open>cannotRunProportional\<close> holds exactly when
  \<open>approxPrecisionPC\<close> is strictly greater than 15; a freshly constructed driver has
  \<open>needsRecalibrating\<close> set and precision 100, and is in non-proportional mode.
\<close>

theorem inNonProportionalMode_iff:
  "inNonProportionalMode s = (needsRecalibrating s \<or> cannotRunProportional (cp s)) \<and>
   cannotRunProportional c = (15 < unat (approxPrecisionPC c)) \<and>
   needsRecalibrating (newDriver saferOpen ps0 tfo0 tr0) \<and>
   unat (approxPrecisionPC (cp (newDriver saferOpen ps0 tfo0 tr0))) = 100 \<and>
   cannotRunProportional (cp (newDriver saferOpen ps0 tfo0 tr0)) \<and>
   inNonProportionalMode (newDriver saferOpen ps0 tfo0 tr0)"
  by (simp add: inNonProportionalMode_def cannotRunProportional_def max_usuable_precision_def
      word_less_nat_alt newDriver_def changeState_def clearPerState_def
      defaultCalibrationParameters_def bad_precision_def)

subsection \<open>Target coercion\<close>

text \<open>
  C8. For every 8-bit \<open>newPC\<close>, also above 100, \<open>setTargetPC\<close> leaves \<open>targetPC\<close> equal to
  the smaller of \<open>newPC\<close> and 100, hence in range; it always returns an object, and changes
  nothing but \<open>targetPC\<close>.
\<close>

theorem setTargetPC_coerces:
  "unat (targetPC (setTargetPC newPC s)) = min (unat newPC) 100 \<and>
   unat (getTargetPC (setTargetPC newPC s)) \<le> 100 \<and>
   setTargetPC newPC s = s\<lparr>targetPC := targetPC (setTargetPC newPC s)\<rparr>"
  by (simp add: setTargetPC_def getTargetPC_def unat_fnmin)

subsection \<open>Per-state scratch data\<close>

text \<open>
  C9. \<open>changeState\<close> enters the new state with the whole per-state union zeroed: whatever it
  held before, every member of every view reads zero (false for \<open>valveFitted\<close>) afterwards.
\<close>

theorem changeState_clears:
  "state (changeState newState s) = newState \<and>
   perState (changeState newState s) = 0 \<and>
   initWaiting_ticksWaited (perState (changeState newState s)) = 0 \<and>
   valveCalibrating_ticksFromOpenToClosed (perState (changeState newState s)) = 0 \<and>
   valveCalibrating_ticksFromClosedToOpen (perState (changeState newState s)) = 0 \<and>
   valveCalibrating_calibState (perState (changeState newState s)) = 0 \<and>
   valveCalibrating_wallclock2sTicks (perState (changeState newState s)) = 0 \<and>
   valveCalibrating_endStopHitCount (perState (changeState newState s)) = 0 \<and>
   valvePinWithdrawing_wallclock2sTicks (perState (changeState newState s)) = 0 \<and>
   valvePinWithdrawing_endStopHitCount (perState (changeState newState s)) = 0 \<and>
   valvePinWithdrawn_valveFitted (perState (changeState newState s)) = False \<and>
   valveNormal_endStopHitCount (perState (changeState newState s)) = 0"
  by (simp add: changeState_def clearPerState_def initWaiting_ticksWaited_def
      valveCalibrating_ticksFromOpenToClosed_def valveCalibrating_ticksFromClosedToOpen_def
      valveCalibrating_calibState_def valveCalibrating_wallclock2sTicks_def
      valveCalibrating_endStopHitCount_def valvePinWithdrawing_wallclock2sTicks_def
      valvePinWithdrawing_endStopHitCount_def valvePinWithdrawn_valveFitted_def
      valveNormal_endStopHitCount_def)

subsection \<open>Really open only in the normal state\<close>

text \<open>
  C10. \<open>isControlledValveReallyOpen\<close> is true exactly when the state is \<open>valveNormal\<close> and
  \<open>currentPC\<close> is at least the minimum percentage open; in each of the seven other states it
  is false.
\<close>

theorem isControlledValveReallyOpen_iff:
  "isControlledValveReallyOpen minPercentOpen s =
     (state s = valveNormal \<and> unat minPercentOpen \<le> unat (currentPC s)) \<and>
   (state s \<in> {init, initWaiting, valvePinWithdrawing, valvePinWithdrawn, valveCalibrating,
       valveDecalcinating, valveError} \<longrightarrow> \<not> isControlledValveReallyOpen minPercentOpen s)"
  by (auto simp add: isControlledValveReallyOpen_def isInNormalRunState_def word_le_nat_alt)

text \<open>
  A driver recalibrating at 100% is not reported as really open, although 100 is above the
  minimum of 35.
\<close>

theorem isControlledValveReallyOpen_iff_witness:
  "state (changeState valveCalibrating (newDriver 50 0 0 0)) \<in>
     {init, initWaiting, valvePinWithdrawing, valvePinWithdrawn, valveCalibrating,
      valveDecalcinating, valveError} \<and>
   currentPC (changeState valveCalibrating (newDriver 50 0 0 0)) = 100 \<and>
   \<not> isControlledValveReallyOpen 35 (changeState valveCalibrating (newDriver 50 0 0 0))"
  using isControlledValveReallyOpen_iff [of 35 "changeState valveCalibrating (newDriver 50 0 0 0)"]
  by (simp add: changeState_def clearPerState_def newDriver_def)

subsection \<open>The tick: BAKE\<close>

text \<open>
  C3. With BAKE active, one tick from any starting percentage with \<open>dontTurnup\<close> armed gives
  exactly 100%, and \<open>dontTurndown\<close> is armed in the resulting state (the cooldown being a
  positive number of ticks).
\<close>

theorem tick_bake:
  "inBakeMode inputs \<Longrightarrow> dontTurnup s \<Longrightarrow> 0 < recloseDelay \<Longrightarrow>
   fst (tick control recloseDelay s inputs backingValve valvePC) = 100 \<and>
   dontTurndown (snd (snd (tick control recloseDelay s inputs backingValve valvePC)))"
  by (simp add: tick_def Let_def dontTurndown_def split: prod.splits)

text \<open>
  As in the unit test \<open>UpDownDelay\<close>: the valve partly closed at 50% with turn-up locked out,
  target 32 C in a room at 18 C, BAKE requested.
\<close>

theorem tick_bake_witness:
  "inBakeMode (roomAt18 32 True) \<and>
   dontTurnup (newValveControlState\<lparr>turnupCountdown := 5\<rparr>) \<and>
   (0::nat) < 10 \<and>
   fst (tick halfRange 10 (newValveControlState\<lparr>turnupCountdown := 5\<rparr>)
          (roomAt18 32 True) None 50) = 100 \<and>
   dontTurndown (snd (snd (tick halfRange 10 (newValveControlState\<lparr>turnupCountdown := 5\<rparr>)
          (roomAt18 32 True) None 50)))"
proof -
  have b: "inBakeMode (roomAt18 32 True)"
    by (simp add: roomAt18_def)
  have u: "dontTurnup (newValveControlState\<lparr>turnupCountdown := 5\<rparr>)"
    by (simp add: dontTurnup_def)
  have d: "(0::nat) < 10"
    by simp
  from tick_bake [OF b u d, of halfRange None 50] b u d show ?thesis
    by simp
qed

end
